theory Spec2Isabelle
  imports Complex_Main
begin

section \<open>Data model (types.ts)\<close>

text \<open>
  The interfaces of \<^verbatim>\<open>types.ts\<close> become records. Field names follow the source;
  \<^verbatim>\<open>id\<close>, \<^verbatim>\<open>text\<close>, \<^verbatim>\<open>type\<close> and \<^verbatim>\<open>name\<close> carry a prefix because
  they clash with HOL names or with each other. An optional field (\<^verbatim>\<open>isSystem?\<close>) is an
  \<open>option\<close>: \<open>None\<close> is the JavaScript \<^verbatim>\<open>undefined\<close>. Numbers that hold
  \<^verbatim>\<open>Date.now()\<close> are naturals (milliseconds); the playback position is a \<open>real\<close>.
  The source computes \<^verbatim>\<open>Math.abs(a - b)\<close> in IEEE doubles and the model in exact
  reals: the two can disagree only where the difference of two positions lies within
  rounding of the threshold 2.
\<close>

datatype VideoSourceType = FILE | YOUTUBE | DIRECT_URL

record VideoSource =
  vs_type :: VideoSourceType
  url :: string
  vs_name :: string

record ChatMessage =
  msg_id :: string
  sender :: string
  msg_text :: string
  timestamp :: nat
  isSystem :: "bool option"
  isAi :: "bool option"

record User =
  user_id :: string
  user_name :: string
  isHost :: "bool option"

text \<open>
  \<^verbatim>\<open>SyncedPartyState\<close> as it lives in \<^verbatim>\<open>localStorage\<close>: a JSON object, and
  \<^verbatim>\<open>updateSyncedState\<close> takes a \<^verbatim>\<open>Partial<SyncedPartyState>\<close>, so every key may be
  missing (\<open>None\<close>). \<^verbatim>\<open>videoSource\<close> may also be present and \<^verbatim>\<open>null\<close>
  (\<open>Some None\<close>), as \<^verbatim>\<open>createParty\<close> writes it.
\<close>

record SyncedPartyState =
  partyCode :: "string option"
  hostId :: "string option"
  videoSource :: "VideoSource option option"
  isPlaying :: "bool option"
  currentTime :: "real option"
  lastUpdateTimestamp :: "nat option"
  users :: "User list option"
  messages :: "ChatMessage list option"

datatype ViewState = AUTH | LOBBY | ROOM

text \<open>
  The \<^verbatim>\<open>useState\<close> cells of \<^verbatim>\<open>App\<close> that the synchronisation code reads or
  writes, one field per cell (prefix \<open>st_\<close>). A value of this record is also what a
  handler closes over: the cells as they were at the render that created the handler.
\<close>

record App =
  st_view :: ViewState
  st_currentUser :: "User option"
  st_partyCode :: "string option"
  st_users :: "User list"
  st_messages :: "ChatMessage list"
  st_videoSource :: "VideoSource option"
  st_isPlaying :: bool
  st_currentTime :: real
  st_seekRequest :: "real option"
  st_urlInput :: string
  st_joinCodeInput :: string
  st_joinError :: string

text \<open>
  The client's world: its \<^verbatim>\<open>App\<close> cells and the shared \<^verbatim>\<open>localStorage\<close>, a map
  from keys to the stored objects (\<^verbatim>\<open>JSON.stringify\<close> followed by \<^verbatim>\<open>JSON.parse\<close>
  is the identity on these records). \<open>published\<close> is the log of the calls of
  \<^verbatim>\<open>localStorage.setItem\<close> this client has made, oldest first: every state it has
  published, with its key.
\<close>

record World =
  app :: App
  localStorage :: "string \<rightharpoonup> SyncedPartyState"
  published :: "(string \<times> SyncedPartyState) list"

section \<open>Sync service (App.tsx)\<close>

text \<open>
  \<^verbatim>\<open>syncStateFromStorage\<close>, one line of the model per line of the source. \<open>cl\<close> is
  the render the callback closes over (it reads \<^verbatim>\<open>currentTime\<close> from there); the
  setters write the current cells \<open>a\<close>. The guards are JavaScript truthiness tests:
  \<^verbatim>\<open>state.videoSource\<close> is falsy when missing or \<^verbatim>\<open>null\<close>, \<^verbatim>\<open>state.currentTime\<close>
  is falsy when missing or \<open>0\<close>, an array is always truthy.
\<close>

definition syncStateFromStorage :: "App \<Rightarrow> SyncedPartyState \<Rightarrow> App \<Rightarrow> App" where
  "syncStateFromStorage cl state a =
    (let a1 = (case videoSource state of
                 Some (Some v) \<Rightarrow> a\<lparr>st_videoSource := Some v\<rparr>
               | _ \<Rightarrow> a);
         a2 = (case isPlaying state of
                 Some b \<Rightarrow> a1\<lparr>st_isPlaying := b\<rparr>
               | None \<Rightarrow> a1);
         a3 = (case currentTime state of
                 Some t \<Rightarrow>
                   (if t \<noteq> 0 \<and> \<bar>t - st_currentTime cl\<bar> > 2
                    then a2\<lparr>st_seekRequest := Some t\<rparr>
                    else a2)
               | None \<Rightarrow> a2);
         a4 = (case users state of Some us \<Rightarrow> a3\<lparr>st_users := us\<rparr> | None \<Rightarrow> a3);
         a5 = (case messages state of Some ms \<Rightarrow> a4\<lparr>st_messages := ms\<rparr> | None \<Rightarrow> a4)
     in a5)"

definition storageKey :: "string \<Rightarrow> string" where
  "storageKey code = ''syncstream_party_'' @ code"

text \<open>The object spread \<^verbatim>\<open>{...currentState, ...newState}\<close>: a key of the right operand wins.\<close>

definition override :: "'a option \<Rightarrow> 'a option \<Rightarrow> 'a option" where
  "override c n = (case n of None \<Rightarrow> c | Some x \<Rightarrow> Some x)"

definition spread :: "SyncedPartyState \<Rightarrow> SyncedPartyState \<Rightarrow> SyncedPartyState" where
  "spread c n =
    \<lparr> partyCode = override (partyCode c) (partyCode n),
      hostId = override (hostId c) (hostId n),
      videoSource = override (videoSource c) (videoSource n),
      isPlaying = override (isPlaying c) (isPlaying n),
      currentTime = override (currentTime c) (currentTime n),
      lastUpdateTimestamp = override (lastUpdateTimestamp c) (lastUpdateTimestamp n),
      users = override (users c) (users n),
      messages = override (messages c) (messages n) \<rparr>"

definition emptyObject :: SyncedPartyState where
  "emptyObject =
    \<lparr> partyCode = None, hostId = None, videoSource = None, isPlaying = None,
      currentTime = None, lastUpdateTimestamp = None, users = None, messages = None \<rparr>"

text \<open>
  \<^verbatim>\<open>updateSyncedState\<close>. \<open>now\<close> is the reading of \<^verbatim>\<open>Date.now()\<close>. The value
  written is returned in the store; the sender's cells are then updated from it.
  \<^verbatim>\<open>!partyCode\<close> holds for \<^verbatim>\<open>null\<close> and for the empty string.
\<close>

definition updated_state :: "string \<Rightarrow> SyncedPartyState \<Rightarrow> nat \<Rightarrow> World \<Rightarrow> SyncedPartyState" where
  "updated_state pc newState now w =
    (let currentState = (case localStorage w (storageKey pc) of
                           None \<Rightarrow> emptyObject | Some s \<Rightarrow> s)
     in (spread currentState newState)
          \<lparr>partyCode := Some pc, lastUpdateTimestamp := Some now\<rparr>)"

definition updateSyncedState :: "App \<Rightarrow> SyncedPartyState \<Rightarrow> nat \<Rightarrow> World \<Rightarrow> World" where
  "updateSyncedState cl newState now w =
    (case st_partyCode cl of
       None \<Rightarrow> w
     | Some pc \<Rightarrow>
         (if pc = [] then w else
          let updated = updated_state pc newState now w
          in w\<lparr>localStorage := (localStorage w)(storageKey pc \<mapsto> updated),
               published := published w @ [(storageKey pc, updated)],
               app := syncStateFromStorage cl updated (app w)\<rparr>))"

text \<open>
  The remote observation path: the \<^verbatim>\<open>storage\<close> event listener and the 2000 ms
  interval. Their effects return at once unless \<^verbatim>\<open>view === 'ROOM'\<close> and
  \<^verbatim>\<open>partyCode\<close> is truthy, so both run only in the room.
  \<open>key\<close> and \<open>newValue\<close> are the fields of the \<^verbatim>\<open>StorageEvent\<close>.
\<close>

definition handleStorageChange ::
  "App \<Rightarrow> string option \<Rightarrow> SyncedPartyState option \<Rightarrow> App \<Rightarrow> App" where
  "handleStorageChange cl key newValue a =
    (case st_partyCode cl of
       None \<Rightarrow> a
     | Some pc \<Rightarrow>
         (if st_view cl = ROOM \<and> pc \<noteq> [] then
            (if key = Some (storageKey pc) then
               (case newValue of None \<Rightarrow> a | Some state \<Rightarrow> syncStateFromStorage cl state a)
             else a)
          else a))"

definition pollTick :: "App \<Rightarrow> World \<Rightarrow> World" where
  "pollTick cl w =
    (case st_partyCode cl of
       None \<Rightarrow> w
     | Some pc \<Rightarrow>
         (if st_view cl = ROOM \<and> pc \<noteq> [] then
            (case localStorage w (storageKey pc) of
               None \<Rightarrow> w
             | Some raw \<Rightarrow> w\<lparr>app := syncStateFromStorage cl raw (app w)\<rparr>)
          else w))"

section \<open>Strings\<close>

text \<open>
  \<^verbatim>\<open>Number.prototype.toString\<close> on a non-negative integer, \<^verbatim>\<open>String.prototype.trim\<close>,
  \<^verbatim>\<open>toUpperCase\<close> and \<^verbatim>\<open>includes\<close>. Characters are bytes here, so the model covers
  ASCII text (and the Latin-1 no-break space for \<^verbatim>\<open>trim\<close>): \<open>toUpperCase\<close>
  maps the letters a to z and leaves every other character as it is, also the accented
  letters that the JavaScript function would map.
\<close>

text \<open>The decimal digit \<open>d\<close>, for \<open>d < 10\<close>; \<open>toString\<close> asks for no other.\<close>

definition digitChar :: "nat \<Rightarrow> char" where
  "digitChar d = ''0123456789'' ! d"

fun toString :: "nat \<Rightarrow> string" where
  "toString n =
    (if n < 10 then [digitChar n]
     else toString (n div 10) @ [digitChar (n mod 10)])"

declare toString.simps [simp del]

definition isWhiteSpace :: "char \<Rightarrow> bool" where
  "isWhiteSpace c = ((of_char c :: nat) \<in> {9, 10, 11, 12, 13, 32, 160})"

definition trim :: "string \<Rightarrow> string" where
  "trim s = rev (dropWhile isWhiteSpace (rev (dropWhile isWhiteSpace s)))"

definition upperChar :: "char \<Rightarrow> char" where
  "upperChar c =
    (case map_of (zip ''abcdefghijklmnopqrstuvwxyz'' ''ABCDEFGHIJKLMNOPQRSTUVWXYZ'') c of
       None \<Rightarrow> c
     | Some u \<Rightarrow> u)"

definition toUpperCase :: "string \<Rightarrow> string" where
  "toUpperCase s = map upperChar s"

fun includes_str :: "string \<Rightarrow> string \<Rightarrow> bool" where
  "includes_str [] sub = (sub = [])"
| "includes_str (c # cs) sub = (take (length sub) (c # cs) = sub \<or> includes_str cs sub)"

section \<open>Auth and lobby logic (App.tsx)\<close>

text \<open>
  A message literal of the source: \<open>t_id\<close> is the \<^verbatim>\<open>Date.now()\<close> reading taken
  for the id, \<open>t_ts\<close> the one taken for the timestamp.
\<close>

definition systemMessage :: "nat \<Rightarrow> nat \<Rightarrow> string \<Rightarrow> ChatMessage" where
  "systemMessage t_id t_ts txt =
    \<lparr> msg_id = toString t_id, sender = ''System'', msg_text = txt, timestamp = t_ts,
      isSystem = Some True, isAi = None \<rparr>"

text \<open>
  \<^verbatim>\<open>createParty\<close>. \<open>code\<close> is the value of
  \<^verbatim>\<open>Math.random().toString(36).substring(2, 8).toUpperCase()\<close>; \<open>t_upd\<close> and
  \<open>t_ts\<close> are the two clock readings, in evaluation order.
\<close>

definition createParty :: "App \<Rightarrow> string \<Rightarrow> nat \<Rightarrow> nat \<Rightarrow> World \<Rightarrow> World" where
  "createParty cl code t_upd t_ts w =
    (case st_currentUser cl of
       None \<Rightarrow> w
     | Some currentUser \<Rightarrow>
         (let initialUsers = [currentUser\<lparr>isHost := Some True\<rparr>];
              initialMessages =
                [\<lparr> msg_id = ''sys_init'', sender = ''System'',
                   msg_text = ''Party created! Code: '' @ code, timestamp = t_ts,
                   isSystem = Some True, isAi = None \<rparr>];
              initialState =
                \<lparr> partyCode = Some code,
                  hostId = Some (user_id currentUser),
                  videoSource = Some None,
                  isPlaying = Some False,
                  currentTime = Some 0,
                  lastUpdateTimestamp = Some t_upd,
                  users = Some initialUsers,
                  messages = Some initialMessages \<rparr>
          in w\<lparr>localStorage := (localStorage w)(storageKey code \<mapsto> initialState),
               published := published w @ [(storageKey code, initialState)],
               app := (app w)\<lparr>st_partyCode := Some code,
                              st_users := initialUsers,
                              st_messages := initialMessages,
                              st_view := ROOM\<rparr>\<rparr>))"

text \<open>
  \<^verbatim>\<open>joinParty\<close>. Spreading a missing \<^verbatim>\<open>state.users\<close> or \<^verbatim>\<open>state.messages\<close>
  into an array literal throws a \<^verbatim>\<open>TypeError\<close> before anything is written.
\<close>

datatype error = TypeError

definition joinParty :: "App \<Rightarrow> nat \<Rightarrow> nat \<Rightarrow> World \<Rightarrow> error + World" where
  "joinParty cl t_id t_ts w =
    (case st_currentUser cl of
       None \<Rightarrow> Inr w
     | Some currentUser \<Rightarrow>
         (if trim (st_joinCodeInput cl) = [] then Inr w
          else
            (let code = toUpperCase (trim (st_joinCodeInput cl));
                 raw = localStorage w (storageKey code)
             in case raw of
                  None \<Rightarrow>
                    Inr (w\<lparr>app := (app w)\<lparr>st_joinError := ''Party not found. Check the code.''\<rparr>\<rparr>)
                | Some state \<Rightarrow>
                    (case users state of
                       None \<Rightarrow> Inl TypeError
                     | Some us \<Rightarrow>
                         (case messages state of
                            None \<Rightarrow> Inl TypeError
                          | Some ms \<Rightarrow>
                              (let updatedUsers = us @ [currentUser];
                                   joinMsg = systemMessage t_id t_ts
                                     (user_name currentUser @ '' joined the party.'');
                                   newState = state\<lparr>users := Some updatedUsers,
                                                     messages := Some (ms @ [joinMsg])\<rparr>
                               in Inr (w\<lparr>localStorage :=
                                           (localStorage w)(storageKey code \<mapsto> newState),
                                         published :=
                                           published w @ [(storageKey code, newState)],
                                         app := (app w)\<lparr>st_partyCode := Some code,
                                                        st_view := ROOM\<rparr>\<rparr>)))))))"

section \<open>Room logic (App.tsx)\<close>

text \<open>
  The three handlers that change the video. Each sets the local cell and then makes one
  call of \<^verbatim>\<open>updateSyncedState\<close>. \<open>file\<close> is \<^verbatim>\<open>e.target.files?.[0]\<close>, given by its
  name and the object URL made for it.
\<close>

definition videoChange ::
  "App \<Rightarrow> VideoSource \<Rightarrow> string \<Rightarrow> nat \<Rightarrow> nat \<Rightarrow> SyncedPartyState" where
  "videoChange cl newSource txt t_id t_ts =
    emptyObject\<lparr> videoSource := Some (Some newSource),
                 isPlaying := Some False,
                 currentTime := Some 0,
                 messages := Some (st_messages cl @ [systemMessage t_id t_ts txt]) \<rparr>"

definition handleFileSelect ::
  "App \<Rightarrow> (string \<times> string) option \<Rightarrow> nat \<Rightarrow> nat \<Rightarrow> nat \<Rightarrow> World \<Rightarrow> World" where
  "handleFileSelect cl file t_id t_ts t_upd w =
    (case file of
       None \<Rightarrow> w
     | Some (file_name, object_url) \<Rightarrow>
         (let newSource = \<lparr> vs_type = FILE, url = object_url, vs_name = file_name \<rparr>;
              w1 = w\<lparr>app := (app w)\<lparr>st_videoSource := Some newSource\<rparr>\<rparr>
          in updateSyncedState cl
               (videoChange cl newSource (''Changed video to '' @ file_name) t_id t_ts)
               t_upd w1))"

definition handleUrlSubmit :: "App \<Rightarrow> nat \<Rightarrow> nat \<Rightarrow> nat \<Rightarrow> World \<Rightarrow> World" where
  "handleUrlSubmit cl t_id t_ts t_upd w =
    (if st_urlInput cl = [] then w
     else
       (let type = (if includes_str (st_urlInput cl) ''youtube.com''
                       \<or> includes_str (st_urlInput cl) ''youtu.be''
                    then YOUTUBE else DIRECT_URL);
            newSource = \<lparr> vs_type = type, url = st_urlInput cl, vs_name = ''Streamed Video'' \<rparr>;
            w1 = w\<lparr>app := (app w)\<lparr>st_videoSource := Some newSource, st_urlInput := []\<rparr>\<rparr>
        in updateSyncedState cl
             (videoChange cl newSource ''Loaded video from URL'' t_id t_ts)
             t_upd w1))"

definition SAMPLE_VIDEOS :: "VideoSource list" where
  "SAMPLE_VIDEOS =
    [\<lparr> vs_type = DIRECT_URL,
       url = ''http://commondatastorage.googleapis.com/gtv-videos-bucket/sample/BigBuckBunny.mp4'',
       vs_name = ''Big Buck Bunny'' \<rparr>,
     \<lparr> vs_type = YOUTUBE,
       url = ''https://www.youtube.com/watch?v=jfKfPfyJRdk'',
       vs_name = ''Lofi Girl (YouTube)'' \<rparr>]"

definition joinSample :: "App \<Rightarrow> VideoSource \<Rightarrow> nat \<Rightarrow> nat \<Rightarrow> nat \<Rightarrow> World \<Rightarrow> World" where
  "joinSample cl sample t_id t_ts t_upd w =
    (let w1 = w\<lparr>app := (app w)\<lparr>st_videoSource := Some sample\<rparr>\<rparr>
     in updateSyncedState cl
          (videoChange cl sample (''Loaded '' @ vs_name sample) t_id t_ts)
          t_upd w1)"

text \<open>The two chat handlers. Both append to the \<^verbatim>\<open>messages\<close> of their own render.\<close>

definition handleSendMessage ::
  "App \<Rightarrow> string \<Rightarrow> nat \<Rightarrow> nat \<Rightarrow> nat \<Rightarrow> World \<Rightarrow> World" where
  "handleSendMessage cl txt t_id t_ts t_upd w =
    (case st_currentUser cl of
       None \<Rightarrow> w
     | Some currentUser \<Rightarrow>
         (let msg = \<lparr> msg_id = toString t_id, sender = user_name currentUser,
                       msg_text = txt, timestamp = t_ts, isSystem = None, isAi = None \<rparr>;
              newMessages = st_messages cl @ [msg];
              w1 = w\<lparr>app := (app w)\<lparr>st_messages := newMessages\<rparr>\<rparr>
          in updateSyncedState cl (emptyObject\<lparr>messages := Some newMessages\<rparr>) t_upd w1))"


section \<open>Player handlers (App.tsx)\<close>

text \<open>
  \<^verbatim>\<open>togglePlay\<close> and \<^verbatim>\<open>handleSeek\<close>. Their call of \<^verbatim>\<open>resetControlsTimer\<close>
  touches only the cells of the control overlay, which are not part of \<open>App\<close>; the
  timer that \<^verbatim>\<open>handleSeek\<close> starts clears \<^verbatim>\<open>seekRequest\<close> 100 ms later, as an
  event of its own. \<open>onTimeUpdate\<close> is the player reporting its position
  (\<^verbatim>\<open>setCurrentTime\<close>).
\<close>

definition togglePlay :: "App \<Rightarrow> nat \<Rightarrow> nat \<Rightarrow> nat \<Rightarrow> World \<Rightarrow> World" where
  "togglePlay cl t_id t_ts t_upd w =
    (let newStatus = (\<not> st_isPlaying cl);
         w1 = w\<lparr>app := (app w)\<lparr>st_isPlaying := newStatus\<rparr>\<rparr>
     in updateSyncedState cl
          (emptyObject\<lparr> isPlaying := Some newStatus,
                        currentTime := Some (st_currentTime cl),
                        messages := Some (st_messages cl @
                          [systemMessage t_id t_ts
                             (if newStatus then ''Resumed video'' else ''Paused video'')]) \<rparr>)
          t_upd w1)"

definition handleSeek :: "App \<Rightarrow> real \<Rightarrow> nat \<Rightarrow> World \<Rightarrow> World" where
  "handleSeek cl time t_upd w =
    (let w1 = w\<lparr>app := (app w)\<lparr>st_seekRequest := Some time, st_currentTime := time\<rparr>\<rparr>
     in updateSyncedState cl (emptyObject\<lparr>currentTime := Some time\<rparr>) t_upd w1)"

definition seekRequestTimeout :: "App \<Rightarrow> App" where
  "seekRequestTimeout a = a\<lparr>st_seekRequest := None\<rparr>"

definition onTimeUpdate :: "real \<Rightarrow> App \<Rightarrow> App" where
  "onTimeUpdate seconds a = a\<lparr>st_currentTime := seconds\<rparr>"

section \<open>The responder (services/gemini.ts)\<close>


record HistoryEntry =
  role :: string
  content :: string





section \<open>The chat form (components/Chat.tsx)\<close>


text \<open>
  \<^verbatim>\<open>Array.prototype.slice(start)\<close> with no end: a negative start counts from the end
  and is clamped at 0, a positive one is clamped at the length.
\<close>

definition slice :: "int \<Rightarrow> 'a list \<Rightarrow> 'a list" where
  "slice start xs =
    (let len = int (length xs);
         k = (if start < 0 then max (len + start) 0 else min start len)
     in drop (nat k) xs)"

definition truthy :: "bool option \<Rightarrow> bool" where
  "truthy b = (case b of None \<Rightarrow> False | Some v \<Rightarrow> v)"

text \<open>The \<^verbatim>\<open>history\<close> constant of \<^verbatim>\<open>handleSubmit\<close>.\<close>

definition history :: "ChatMessage list \<Rightarrow> User \<Rightarrow> HistoryEntry list" where
  "history msgs currentUser =
    map (\<lambda>m. \<lparr> role = (if truthy (isAi m) then ''model'' else ''user''),
                content = msg_text m \<rparr>)
      (slice (- 6)
        (filter (\<lambda>m. truthy (isAi m) \<or> sender m = user_name currentUser) msgs))"





section \<open>Example runs\<close>

text \<open>
  Concrete values used to run the definitions: the initial cells of \<^verbatim>\<open>App\<close> (the
  arguments of its \<^verbatim>\<open>useState\<close> calls), two users as \<^verbatim>\<open>handleLogin\<close> makes
  them, and an empty \<^verbatim>\<open>localStorage\<close>.
\<close>

definition initialApp :: App where
  "initialApp =
    \<lparr> st_view = AUTH, st_currentUser = None, st_partyCode = None, st_users = [],
      st_messages = [], st_videoSource = None, st_isPlaying = False, st_currentTime = 0,
      st_seekRequest = None, st_urlInput = [], st_joinCodeInput = [], st_joinError = [] \<rparr>"

definition ann :: User where
  "ann = \<lparr> user_id = ''k2j9x0q1z'', user_name = ''Ann'', isHost = None \<rparr>"

definition bob :: User where
  "bob = \<lparr> user_id = ''p7m3c5v8d'', user_name = ''Bob'', isHost = None \<rparr>"

definition lobby :: "User \<Rightarrow> App" where
  "lobby u = initialApp\<lparr>st_currentUser := Some u, st_view := LOBBY\<rparr>"

definition emptyWorld :: World where
  "emptyWorld = \<lparr> app = initialApp, localStorage = Map.empty, published = [] \<rparr>"

text \<open>Ann has created the party \<^verbatim>\<open>ABC123\<close>; her player has since reached 10 seconds.\<close>

definition annRoom :: World where
  "annRoom =
    (let w = createParty (lobby ann) ''ABC123'' 1000 1000 (emptyWorld\<lparr>app := lobby ann\<rparr>)
     in w\<lparr>app := (app w)\<lparr>st_currentTime := 10\<rparr>\<rparr>)"

text \<open>
  Two tabs on one \<^verbatim>\<open>localStorage\<close>. A tab's world is its own cells, its own log
  of writes and the shared store; \<open>w\<lparr>localStorage := localStorage w'\<rparr>\<close> is the tab of \<open>w\<close> seeing the store
  as the tab of \<open>w'\<close> left it. The first run: Ann creates the party, Bob joins and
  loads it, Ann's poll shows her the join, Ann sends a message, Bob sends one before
  his next poll, Ann polls again.
\<close>

definition annCreated :: World where
  "annCreated = createParty (lobby ann) ''ABC123'' 1000 1000 (emptyWorld\<lparr>app := lobby ann\<rparr>)"

definition bobLobby :: App where
  "bobLobby = (lobby bob)\<lparr>st_joinCodeInput := ''ABC123''\<rparr>"

text \<open>
  After a successful join the room is rendered and its effect loads the stored state, which
  is what a poll tick does.
\<close>

definition afterJoin :: "error + World \<Rightarrow> World" where
  "afterJoin r = (case r of Inl e \<Rightarrow> emptyWorld | Inr w \<Rightarrow> pollTick (app w) w)"

definition bobJoined :: World where
  "bobJoined =
    afterJoin (joinParty bobLobby 2000 2000
                 \<lparr> app = bobLobby, localStorage = localStorage annCreated, published = [] \<rparr>)"

definition annSees :: World where
  "annSees = pollTick (app annCreated) (annCreated\<lparr>localStorage := localStorage bobJoined\<rparr>)"

definition annSent :: World where
  "annSent = handleSendMessage (app annSees) ''hi'' 5000 5000 5000 annSees"

definition bobSent :: World where
  "bobSent =
    handleSendMessage (app bobJoined) ''yo'' 5400 5400 5400
      (bobJoined\<lparr>localStorage := localStorage annSent\<rparr>)"

definition annAfter :: World where
  "annAfter = pollTick (app annSent) (annSent\<lparr>localStorage := localStorage bobSent\<rparr>)"

text \<open>
  The second run: Ann creates the party and sends a message; Bob joins while the clock
  still reads the same millisecond.
\<close>

definition annSentEarly :: World where
  "annSentEarly = handleSendMessage (app annCreated) ''hi'' 5000 5000 5000 annCreated"

definition bobJoinedSameMs :: "error + World" where
  "bobJoinedSameMs =
    joinParty bobLobby 5000 5000
      \<lparr> app = bobLobby, localStorage = localStorage annSentEarly, published = [] \<rparr>"

definition storedAfterJoin :: "SyncedPartyState option" where
  "storedAfterJoin =
    (case bobJoinedSameMs of Inl e \<Rightarrow> None | Inr w \<Rightarrow> localStorage w (storageKey ''ABC123''))"

text \<open>Names for the values that occur in these runs.\<close>

abbreviation annHost :: User where
  "annHost \<equiv> \<lparr> user_id = ''k2j9x0q1z'', user_name = ''Ann'', isHost = Some True \<rparr>"

abbreviation sysInit :: ChatMessage where
  "sysInit \<equiv>
    \<lparr> msg_id = ''sys_init'', sender = ''System'', msg_text = ''Party created! Code: ABC123'',
      timestamp = 1000, isSystem = Some True, isAi = None \<rparr>"

abbreviation bobJoinMsg :: "nat \<Rightarrow> ChatMessage" where
  "bobJoinMsg t \<equiv>
    \<lparr> msg_id = toString t, sender = ''System'', msg_text = ''Bob joined the party.'',
      timestamp = t, isSystem = Some True, isAi = None \<rparr>"

abbreviation userMsg :: "string \<Rightarrow> string \<Rightarrow> nat \<Rightarrow> ChatMessage" where
  "userMsg who txt t \<equiv>
    \<lparr> msg_id = toString t, sender = who, msg_text = txt, timestamp = t,
      isSystem = None, isAi = None \<rparr>"

abbreviation sysMsg :: "string \<Rightarrow> nat \<Rightarrow> ChatMessage" where
  "sysMsg txt t \<equiv>
    \<lparr> msg_id = toString t, sender = ''System'', msg_text = txt, timestamp = t,
      isSystem = Some True, isAi = None \<rparr>"

abbreviation bigBuckBunny :: VideoSource where
  "bigBuckBunny \<equiv>
    \<lparr> vs_type = DIRECT_URL,
      url = ''http://commondatastorage.googleapis.com/gtv-videos-bucket/sample/BigBuckBunny.mp4'',
      vs_name = ''Big Buck Bunny'' \<rparr>"

abbreviation created :: SyncedPartyState where
  "created \<equiv>
    \<lparr> partyCode = Some ''ABC123'', hostId = Some ''k2j9x0q1z'', videoSource = Some None,
      isPlaying = Some False, currentTime = Some 0, lastUpdateTimestamp = Some 1000,
      users = Some [annHost], messages = Some [sysInit] \<rparr>"

abbreviation annCells :: App where
  "annCells \<equiv>
    \<lparr> st_view = ROOM, st_currentUser = Some ann, st_partyCode = Some ''ABC123'',
      st_users = [annHost], st_messages = [sysInit], st_videoSource = None,
      st_isPlaying = False, st_currentTime = 0, st_seekRequest = None, st_urlInput = [],
      st_joinCodeInput = [], st_joinError = [] \<rparr>"

abbreviation bobCells :: App where
  "bobCells \<equiv>
    \<lparr> st_view = ROOM, st_currentUser = Some bob, st_partyCode = Some ''ABC123'',
      st_users = [annHost, bob], st_messages = [sysInit, bobJoinMsg 2000],
      st_videoSource = None, st_isPlaying = False, st_currentTime = 0,
      st_seekRequest = None, st_urlInput = [], st_joinCodeInput = ''ABC123'',
      st_joinError = [] \<rparr>"


definition incomingAfterJoin :: SyncedPartyState where
  "incomingAfterJoin = (case storedAfterJoin of None \<Rightarrow> emptyObject | Some s \<Rightarrow> s)"


definition sam :: User where
  "sam = \<lparr> user_id = ''w4h8n6b2y'', user_name = ''System'', isHost = None \<rparr>"

text \<open>A user who logged in under the name \<^verbatim>\<open>System\<close> creates a party.\<close>

definition samCreated :: World where
  "samCreated = createParty (lobby sam) ''ABC123'' 1000 1000 (emptyWorld\<lparr>app := lobby sam\<rparr>)"

text \<open>Bob tries a code that the store does not know.\<close>

definition bobLost :: App where
  "bobLost = (lobby bob)\<lparr>st_joinCodeInput := ''ZZZZZZ''\<rparr>"




text \<open>
  The third run continues the first after Ann's poll has shown her the join: Ann loads the
  first sample, starts it and seeks to 50 seconds. Bob, whose tab has not yet seen any of
  this and still shows the form for choosing a video, has typed a link into it.
\<close>

definition annSample :: World where
  "annSample = joinSample (app annSees) (hd SAMPLE_VIDEOS) 3000 3000 3000 annSees"

definition annPlaying :: World where
  "annPlaying = togglePlay (app annSample) 3500 3500 3500 annSample"

definition annSeeking :: World where
  "annSeeking = handleSeek (app annPlaying) 50 4000 annPlaying"

definition bobTyping :: World where
  "bobTyping =
    bobJoined\<lparr>app := (app bobJoined)\<lparr>st_urlInput := ''https://youtu.be/jfKfPfyJRdk''\<rparr>,
              localStorage := localStorage annSeeking\<rparr>"



section \<open>The history, in the words of the specification\<close>

text \<open>
  The specification speaks of the most recent at most \<open>n\<close> elements of a sequence, and of
  tagging each message with a role. These two definitions follow its words; the theorem
  on \<open>history\<close> compares them with the expression of the source.
\<close>

definition mostRecent :: "nat \<Rightarrow> 'a list \<Rightarrow> 'a list" where
  "mostRecent n xs = rev (take n (rev xs))"

definition roleTagged :: "ChatMessage \<Rightarrow> HistoryEntry" where
  "roleTagged m =
    \<lparr> role = (if isAi m = Some True then ''model'' else ''user''), content = msg_text m \<rparr>"

section \<open>Evaluation lemmas\<close>

lemma toString_digit: "n < 10 \<Longrightarrow> toString n = [digitChar n]"
  by (simp add: toString.simps)

lemma toString_numeral:
  "toString (numeral k) =
    (if numeral k < (10::nat) then [digitChar (numeral k)]
     else toString (numeral k div 10) @ [digitChar (numeral k mod 10)])"
  by (rule toString.simps)

lemma toString_examples:
  "toString 2000 = ''2000''" "toString 5000 = ''5000''" "toString 5400 = ''5400''"
  by (simp_all add: toString_numeral toString_digit digitChar_def)

lemma storageKey_ABC123: "storageKey ''ABC123'' = ''syncstream_party_ABC123''"
  by (simp add: storageKey_def)

lemma normalized_ABC123: "trim ''ABC123'' = ''ABC123''" "toUpperCase ''ABC123'' = ''ABC123''"
  by (simp_all add: trim_def toUpperCase_def upperChar_def isWhiteSpace_def)

section \<open>What \<^verbatim>\<open>syncStateFromStorage\<close> does to each cell\<close>

lemma sync_seekRequest:
  "st_seekRequest (syncStateFromStorage cl state a) =
    (case currentTime state of
       None \<Rightarrow> st_seekRequest a
     | Some t \<Rightarrow>
         if t \<noteq> 0 \<and> \<bar>t - st_currentTime cl\<bar> > 2 then Some t else st_seekRequest a)"
  by (simp add: syncStateFromStorage_def Let_def split: option.splits)

lemma sync_messages:
  "st_messages (syncStateFromStorage cl state a) =
    (case messages state of None \<Rightarrow> st_messages a | Some ms \<Rightarrow> ms)"
  by (simp add: syncStateFromStorage_def Let_def split: option.splits)

lemma sync_users:
  "st_users (syncStateFromStorage cl state a) =
    (case users state of None \<Rightarrow> st_users a | Some us \<Rightarrow> us)"
  by (simp add: syncStateFromStorage_def Let_def split: option.splits)

lemma sync_isPlaying:
  "st_isPlaying (syncStateFromStorage cl state a) =
    (case isPlaying state of None \<Rightarrow> st_isPlaying a | Some b \<Rightarrow> b)"
  by (simp add: syncStateFromStorage_def Let_def split: option.splits)

lemma sync_videoSource:
  "st_videoSource (syncStateFromStorage cl state a) =
    (case videoSource state of Some (Some v) \<Rightarrow> Some v | _ \<Rightarrow> st_videoSource a)"
  by (simp add: syncStateFromStorage_def Let_def split: option.splits)

lemma sync_other_cells:
  "st_view (syncStateFromStorage cl state a) = st_view a"
  "st_currentUser (syncStateFromStorage cl state a) = st_currentUser a"
  "st_partyCode (syncStateFromStorage cl state a) = st_partyCode a"
  "st_currentTime (syncStateFromStorage cl state a) = st_currentTime a"
  "st_urlInput (syncStateFromStorage cl state a) = st_urlInput a"
  "st_joinCodeInput (syncStateFromStorage cl state a) = st_joinCodeInput a"
  "st_joinError (syncStateFromStorage cl state a) = st_joinError a"
  by (simp_all add: syncStateFromStorage_def Let_def split: option.splits)

lemma App_eqI:
  fixes a b :: App
  assumes "st_view a = st_view b" "st_currentUser a = st_currentUser b"
    "st_partyCode a = st_partyCode b" "st_users a = st_users b"
    "st_messages a = st_messages b" "st_videoSource a = st_videoSource b"
    "st_isPlaying a = st_isPlaying b" "st_currentTime a = st_currentTime b"
    "st_seekRequest a = st_seekRequest b" "st_urlInput a = st_urlInput b"
    "st_joinCodeInput a = st_joinCodeInput b" "st_joinError a = st_joinError b"
  shows "a = b"
  using assms by (cases a, cases b) simp

text \<open>Within one render, a second merge of the same state changes no cell.\<close>

lemma sync_twice:
  "syncStateFromStorage cl state (syncStateFromStorage cl state a)
    = syncStateFromStorage cl state a"
  by (rule App_eqI)
     (simp_all add: sync_seekRequest sync_messages sync_users sync_isPlaying
        sync_videoSource sync_other_cells split: option.splits)

text \<open>
  The drift rule on the values of the specification's example, local position 10:
  11.5 and 12 (a difference of exactly 2) request no seek, 13.1 requests one.
\<close>

lemma drift_threshold_examples:
  "st_seekRequest (syncStateFromStorage (initialApp\<lparr>st_currentTime := 10\<rparr>)
      (emptyObject\<lparr>currentTime := Some 11.5\<rparr>) initialApp) = None"
  "st_seekRequest (syncStateFromStorage (initialApp\<lparr>st_currentTime := 10\<rparr>)
      (emptyObject\<lparr>currentTime := Some 12\<rparr>) initialApp) = None"
  "st_seekRequest (syncStateFromStorage (initialApp\<lparr>st_currentTime := 10\<rparr>)
      (emptyObject\<lparr>currentTime := Some 13.1\<rparr>) initialApp) = Some 13.1"
  by (simp_all add: sync_seekRequest emptyObject_def initialApp_def)

lemma pollTick_in_room:
  "st_partyCode cl = Some pc \<Longrightarrow> pc \<noteq> [] \<Longrightarrow> st_view cl = ROOM \<Longrightarrow>
   localStorage w (storageKey pc) = Some state \<Longrightarrow>
   pollTick cl w = w\<lparr>app := syncStateFromStorage cl state (app w)\<rparr>"
  by (simp add: pollTick_def)

lemma handleStorageChange_in_room:
  "st_partyCode cl = Some pc \<Longrightarrow> pc \<noteq> [] \<Longrightarrow> st_view cl = ROOM \<Longrightarrow>
   handleStorageChange cl (Some (storageKey pc)) (Some state) a
     = syncStateFromStorage cl state a"
  by (simp add: handleStorageChange_def)

section \<open>The runs, evaluated\<close>

text \<open>Each step of a run, as the cells of the tab and the content of the store after it.\<close>

lemma annCreated_eval:
  "app annCreated = annCells"
  "localStorage annCreated = [storageKey ''ABC123'' \<mapsto> created]"
  by (simp_all add: annCreated_def createParty_def lobby_def initialApp_def emptyWorld_def
      ann_def Let_def)

lemma annRoom_eval:
  "app annRoom = annCells\<lparr>st_currentTime := 10\<rparr>"
  "localStorage annRoom = [storageKey ''ABC123'' \<mapsto> created]"
  by (simp_all add: annRoom_def createParty_def lobby_def initialApp_def emptyWorld_def
      ann_def Let_def)

lemma bobJoined_eval:
  "app bobJoined = bobCells"
  "localStorage bobJoined =
    [storageKey ''ABC123'' \<mapsto>
       created\<lparr>users := Some [annHost, bob], messages := Some [sysInit, bobJoinMsg 2000]\<rparr>]"
  by (simp_all add: bobJoined_def afterJoin_def annCreated_eval joinParty_def bobLobby_def
      lobby_def initialApp_def bob_def normalized_ABC123 systemMessage_def pollTick_def
      syncStateFromStorage_def Let_def)

lemma annSees_eval:
  "app annSees =
    annCells\<lparr>st_users := [annHost, bob], st_messages := [sysInit, bobJoinMsg 2000]\<rparr>"
  "localStorage annSees =
    [storageKey ''ABC123'' \<mapsto>
       created\<lparr>users := Some [annHost, bob], messages := Some [sysInit, bobJoinMsg 2000]\<rparr>]"
  by (simp_all add: annSees_def annCreated_eval bobJoined_eval pollTick_def
      syncStateFromStorage_def Let_def storageKey_ABC123)

lemma annSent_eval:
  "app annSent =
    annCells\<lparr>st_users := [annHost, bob],
             st_messages := [sysInit, bobJoinMsg 2000, userMsg ''Ann'' ''hi'' 5000]\<rparr>"
  "localStorage annSent =
    [storageKey ''ABC123'' \<mapsto>
       created\<lparr>users := Some [annHost, bob],
                messages := Some [sysInit, bobJoinMsg 2000, userMsg ''Ann'' ''hi'' 5000],
                lastUpdateTimestamp := Some 5000\<rparr>]"
  by (simp_all add: annSent_def annSees_eval handleSendMessage_def updateSyncedState_def
      updated_state_def spread_def override_def emptyObject_def ann_def
      syncStateFromStorage_def Let_def storageKey_ABC123)

lemma bobSent_eval:
  "app bobSent =
    bobCells\<lparr>st_messages := [sysInit, bobJoinMsg 2000, userMsg ''Bob'' ''yo'' 5400]\<rparr>"
  "localStorage bobSent =
    [storageKey ''ABC123'' \<mapsto>
       created\<lparr>users := Some [annHost, bob],
                messages := Some [sysInit, bobJoinMsg 2000, userMsg ''Bob'' ''yo'' 5400],
                lastUpdateTimestamp := Some 5400\<rparr>]"
  by (simp_all add: bobSent_def bobJoined_eval annSent_eval handleSendMessage_def
      updateSyncedState_def updated_state_def spread_def override_def emptyObject_def bob_def
      syncStateFromStorage_def Let_def storageKey_ABC123)

lemma annAfter_eval:
  "app annAfter =
    annCells\<lparr>st_users := [annHost, bob],
             st_messages := [sysInit, bobJoinMsg 2000, userMsg ''Bob'' ''yo'' 5400]\<rparr>"
  by (simp add: annAfter_def annSent_eval bobSent_eval pollTick_def
      syncStateFromStorage_def Let_def storageKey_ABC123)

lemma annSentEarly_eval:
  "app annSentEarly = annCells\<lparr>st_messages := [sysInit, userMsg ''Ann'' ''hi'' 5000]\<rparr>"
  "localStorage annSentEarly =
    [storageKey ''ABC123'' \<mapsto>
       created\<lparr>messages := Some [sysInit, userMsg ''Ann'' ''hi'' 5000],
                lastUpdateTimestamp := Some 5000\<rparr>]"
  by (simp_all add: annSentEarly_def annCreated_eval handleSendMessage_def
      updateSyncedState_def updated_state_def spread_def override_def emptyObject_def ann_def
      syncStateFromStorage_def Let_def storageKey_ABC123)

lemma storedAfterJoin_eval:
  "storedAfterJoin =
    Some (created\<lparr>users := Some [annHost, bob],
                   messages := Some [sysInit, userMsg ''Ann'' ''hi'' 5000, bobJoinMsg 5000],
                   lastUpdateTimestamp := Some 5000\<rparr>)"
  by (simp add: storedAfterJoin_def bobJoinedSameMs_def annSentEarly_eval joinParty_def
      bobLobby_def lobby_def initialApp_def bob_def normalized_ABC123 systemMessage_def Let_def)

lemma annSample_eval:
  "app annSample =
    annCells\<lparr>st_users := [annHost, bob],
             st_messages := [sysInit, bobJoinMsg 2000, sysMsg ''Loaded Big Buck Bunny'' 3000],
             st_videoSource := Some bigBuckBunny\<rparr>"
  "localStorage annSample =
    [storageKey ''ABC123'' \<mapsto>
       created\<lparr>users := Some [annHost, bob],
                messages := Some [sysInit, bobJoinMsg 2000,
                                  sysMsg ''Loaded Big Buck Bunny'' 3000],
                videoSource := Some (Some bigBuckBunny),
                lastUpdateTimestamp := Some 3000\<rparr>]"
  by (simp_all add: annSample_def annSees_eval joinSample_def videoChange_def SAMPLE_VIDEOS_def
      systemMessage_def updateSyncedState_def updated_state_def spread_def override_def
      emptyObject_def syncStateFromStorage_def Let_def storageKey_ABC123)

lemma annPlaying_eval:
  "app annPlaying =
    annCells\<lparr>st_users := [annHost, bob],
             st_messages := [sysInit, bobJoinMsg 2000, sysMsg ''Loaded Big Buck Bunny'' 3000,
                             sysMsg ''Resumed video'' 3500],
             st_videoSource := Some bigBuckBunny, st_isPlaying := True\<rparr>"
  "localStorage annPlaying =
    [storageKey ''ABC123'' \<mapsto>
       created\<lparr>users := Some [annHost, bob],
                messages := Some [sysInit, bobJoinMsg 2000,
                                  sysMsg ''Loaded Big Buck Bunny'' 3000,
                                  sysMsg ''Resumed video'' 3500],
                videoSource := Some (Some bigBuckBunny), isPlaying := Some True,
                lastUpdateTimestamp := Some 3500\<rparr>]"
  by (simp_all add: annPlaying_def annSample_eval togglePlay_def systemMessage_def
      updateSyncedState_def updated_state_def spread_def override_def emptyObject_def
      syncStateFromStorage_def Let_def storageKey_ABC123)

lemma annSeeking_eval:
  "app annSeeking =
    annCells\<lparr>st_users := [annHost, bob],
             st_messages := [sysInit, bobJoinMsg 2000, sysMsg ''Loaded Big Buck Bunny'' 3000,
                             sysMsg ''Resumed video'' 3500],
             st_videoSource := Some bigBuckBunny, st_isPlaying := True,
             st_currentTime := 50, st_seekRequest := Some 50\<rparr>"
  "localStorage annSeeking =
    [storageKey ''ABC123'' \<mapsto>
       created\<lparr>users := Some [annHost, bob],
                messages := Some [sysInit, bobJoinMsg 2000,
                                  sysMsg ''Loaded Big Buck Bunny'' 3000,
                                  sysMsg ''Resumed video'' 3500],
                videoSource := Some (Some bigBuckBunny), isPlaying := Some True,
                currentTime := Some 50, lastUpdateTimestamp := Some 4000\<rparr>]"
  by (simp_all add: annSeeking_def annPlaying_eval handleSeek_def
      updateSyncedState_def updated_state_def spread_def override_def emptyObject_def
      syncStateFromStorage_def Let_def storageKey_ABC123)

lemma bobTyping_eval:
  "app bobTyping = bobCells\<lparr>st_urlInput := ''https://youtu.be/jfKfPfyJRdk''\<rparr>"
  "localStorage bobTyping = localStorage annSeeking"
  by (simp_all add: bobTyping_def bobJoined_eval)


lemma incomingAfterJoin_eval:
  "incomingAfterJoin =
    created\<lparr>users := Some [annHost, bob],
            messages := Some [sysInit, userMsg ''Ann'' ''hi'' 5000, bobJoinMsg 5000],
            lastUpdateTimestamp := Some 5000\<rparr>"
  by (simp add: incomingAfterJoin_def storedAfterJoin_eval)

section \<open>The drift rule\<close>

text \<open>
  C1 (the code departs from the claim). The claim: on the remote observation path a seek
  to the incoming position is requested if and only if that position differs from the
  local one by more than 2 seconds. The guard of \<^verbatim>\<open>syncStateFromStorage\<close> also
  requires the incoming position to be truthy, so a position of 0 never passes. In Ann's
  room the store holds position 0 and her player is at 10 seconds: the difference is 10,
  and the poll tick leaves \<^verbatim>\<open>seekRequest\<close> at \<^verbatim>\<open>null\<close>.
\<close>

theorem C1_rewind_to_start_is_dropped:
  "2 < \<bar>0 - st_currentTime (app annRoom)\<bar>
   \<and> map_option currentTime (localStorage annRoom (storageKey ''ABC123'')) = Some (Some 0)
   \<and> st_seekRequest (app (pollTick (app annRoom) annRoom)) = None"
  by (simp add: annRoom_eval pollTick_def sync_seekRequest)

text \<open>
  C10. An incoming state whose position is exactly 0 never makes the remote observation
  path request a seek, whatever the local position is: not in
  \<^verbatim>\<open>syncStateFromStorage\<close> itself, not from the storage event, not from the poll tick.
\<close>

theorem C10_zero_position_never_seeks:
  assumes "currentTime state = Some 0"
  shows "st_seekRequest (syncStateFromStorage cl state a) = st_seekRequest a
    \<and> st_seekRequest (handleStorageChange cl key (Some state) a) = st_seekRequest a
    \<and> (localStorage w (storageKey (case st_partyCode cl of None \<Rightarrow> [] | Some pc \<Rightarrow> pc))
          = Some state
        \<longrightarrow> st_seekRequest (app (pollTick cl w)) = st_seekRequest (app w))"
  using assms
  by (auto simp add: sync_seekRequest handleStorageChange_def pollTick_def
      split: option.splits)

theorem C10_zero_position_never_seeks_witness:
  "currentTime created = Some 0
   \<and> localStorage annRoom (storageKey ''ABC123'') = Some created
   \<and> st_currentTime (app annRoom) = 10
   \<and> st_seekRequest (syncStateFromStorage (app annRoom) created (app annRoom)) = None
   \<and> st_seekRequest (handleStorageChange (app annRoom) (Some (storageKey ''ABC123''))
        (Some created) (app annRoom)) = None
   \<and> st_seekRequest (app (pollTick (app annRoom) annRoom)) = None"
  using C10_zero_position_never_seeks
    [of created "app annRoom" "app annRoom" "Some (storageKey ''ABC123'')" annRoom]
  by (simp add: annRoom_eval)

section \<open>Merging an incoming state\<close>

text \<open>
  C3. \<^verbatim>\<open>syncStateFromStorage\<close> is a total function with no failing branch, and a
  field that the incoming state lacks (\<^verbatim>\<open>videoSource\<close> missing or \<^verbatim>\<open>null\<close>, the
  others missing) leaves the corresponding cell as it was; the cells that no field feeds
  are never written. In \<^verbatim>\<open>updateSyncedState\<close> the object written is the stored one
  with the keys of \<^verbatim>\<open>newState\<close> laid over it: a payload key that \<^verbatim>\<open>newState\<close> lacks
  keeps its stored value (\<^verbatim>\<open>partyCode\<close> and \<^verbatim>\<open>lastUpdateTimestamp\<close> are the stamp of
  the write itself).
\<close>

theorem C3_absent_fields_are_no_change:
  "(videoSource state = None \<or> videoSource state = Some None
      \<longrightarrow> st_videoSource (syncStateFromStorage cl state a) = st_videoSource a)
   \<and> (isPlaying state = None
      \<longrightarrow> st_isPlaying (syncStateFromStorage cl state a) = st_isPlaying a)
   \<and> (currentTime state = None
      \<longrightarrow> st_seekRequest (syncStateFromStorage cl state a) = st_seekRequest a)
   \<and> (users state = None \<longrightarrow> st_users (syncStateFromStorage cl state a) = st_users a)
   \<and> (messages state = None
      \<longrightarrow> st_messages (syncStateFromStorage cl state a) = st_messages a)
   \<and> st_view (syncStateFromStorage cl state a) = st_view a
   \<and> st_currentUser (syncStateFromStorage cl state a) = st_currentUser a
   \<and> st_partyCode (syncStateFromStorage cl state a) = st_partyCode a
   \<and> st_currentTime (syncStateFromStorage cl state a) = st_currentTime a
   \<and> (st_partyCode cl = Some pc \<and> pc \<noteq> [] \<and> localStorage w (storageKey pc) = Some cur
      \<longrightarrow> (\<exists>upd. localStorage (updateSyncedState cl new now w) (storageKey pc) = Some upd
            \<and> (hostId new = None \<longrightarrow> hostId upd = hostId cur)
            \<and> (videoSource new = None \<longrightarrow> videoSource upd = videoSource cur)
            \<and> (isPlaying new = None \<longrightarrow> isPlaying upd = isPlaying cur)
            \<and> (currentTime new = None \<longrightarrow> currentTime upd = currentTime cur)
            \<and> (users new = None \<longrightarrow> users upd = users cur)
            \<and> (messages new = None \<longrightarrow> messages upd = messages cur)))"
  by (auto simp add: sync_videoSource sync_isPlaying sync_seekRequest sync_users sync_messages
      sync_other_cells updateSyncedState_def updated_state_def spread_def override_def
      Let_def)

theorem C3_absent_fields_are_no_change_witness:
  "videoSource emptyObject = None \<and> isPlaying emptyObject = None
   \<and> currentTime emptyObject = None \<and> users emptyObject = None
   \<and> messages emptyObject = None \<and> hostId emptyObject = None
   \<and> st_partyCode (app annCreated) = Some ''ABC123''
   \<and> localStorage annCreated (storageKey ''ABC123'') = Some created
   \<and> syncStateFromStorage (app annCreated) emptyObject (app annCreated) = app annCreated
   \<and> (\<exists>upd. localStorage (updateSyncedState (app annCreated) emptyObject 1500 annCreated)
               (storageKey ''ABC123'') = Some upd
          \<and> hostId upd = hostId created \<and> videoSource upd = videoSource created
          \<and> isPlaying upd = isPlaying created \<and> currentTime upd = currentTime created
          \<and> users upd = users created \<and> messages upd = messages created)"
  using C3_absent_fields_are_no_change
    [of emptyObject "app annCreated" "app annCreated" "''ABC123''" annCreated created
        emptyObject 1500]
  by (simp add: annCreated_eval emptyObject_def syncStateFromStorage_def)

section \<open>The chat log under a merge\<close>

text \<open>
  C2 (corrected). The claim: applying an incoming state never removes a message the client
  already shows, the result being a union by id. The code replaces the list. In the first
  run Ann's own message is in her chat log after she sent it and is gone after her next
  poll, because Bob's write did not contain it.
\<close>

theorem C2_counterexample:
  "userMsg ''Ann'' ''hi'' 5000 \<in> set (st_messages (app annSent))
   \<and> userMsg ''Ann'' ''hi'' 5000
       \<notin> set (st_messages (app (pollTick (app annSent)
                                  (annSent\<lparr>localStorage := localStorage bobSent\<rparr>))))"
  using annAfter_eval
  by (simp add: annAfter_def annSent_eval toString_examples)

text \<open>
  C2 as amended. The chat log after the merge is the incoming \<^verbatim>\<open>messages\<close> when the
  incoming state has that field, and the local log otherwise. So no local message is
  removed when the incoming log, if there is one, contains every local message.
\<close>

theorem C2_merge_replaces_chat_log:
  "st_messages (syncStateFromStorage cl state a)
     = (case messages state of None \<Rightarrow> st_messages a | Some r \<Rightarrow> r)
   \<and> ((case messages state of None \<Rightarrow> True | Some r \<Rightarrow> set (st_messages a) \<subseteq> set r)
      \<longrightarrow> set (st_messages a) \<subseteq> set (st_messages (syncStateFromStorage cl state a)))"
  by (simp add: sync_messages split: option.splits)

theorem C2_merge_replaces_chat_log_witness:
  "messages (created\<lparr>messages := Some [sysInit, bobJoinMsg 2000]\<rparr>)
     = Some [sysInit, bobJoinMsg 2000]
   \<and> set (st_messages annCells) \<subseteq> set [sysInit, bobJoinMsg 2000]
   \<and> st_messages (syncStateFromStorage annCells
        (created\<lparr>messages := Some [sysInit, bobJoinMsg 2000]\<rparr>) annCells)
       = [sysInit, bobJoinMsg 2000]
   \<and> set (st_messages annCells)
       \<subseteq> set (st_messages (syncStateFromStorage annCells
                (created\<lparr>messages := Some [sysInit, bobJoinMsg 2000]\<rparr>) annCells))"
  using C2_merge_replaces_chat_log
    [of annCells "created\<lparr>messages := Some [sysInit, bobJoinMsg 2000]\<rparr>" annCells]
  by simp

text \<open>
  What holds of the chat log under a repeated merge: merging the same incoming state a
  second time, from whatever render, leaves the chat log as the first merge left it, and
  an incoming log without duplicate ids gives a merged log without duplicate ids.
\<close>

lemma merge_twice_chat_log:
  "st_messages (syncStateFromStorage cl2 state (syncStateFromStorage cl1 state a))
     = st_messages (syncStateFromStorage cl1 state a)"
  by (simp add: sync_messages split: option.splits)

lemma merge_keeps_distinct_ids:
  "messages state = Some r \<Longrightarrow> distinct (map msg_id r) \<Longrightarrow>
   distinct (map msg_id (st_messages
     (syncStateFromStorage cl2 state (syncStateFromStorage cl1 state a))))"
  by (simp add: sync_messages)

text \<open>
  C8 (the code departs from the claim). The claim: merging the same remote chat log twice
  gives the same sequence as merging it once, and the result has no duplicate ids. The
  sequence is indeed the same. But the chat log stored at the end of the second run holds
  the id \<^verbatim>\<open>5000\<close> twice, and after Ann's tab has merged it twice her chat log holds
  it twice as well.
\<close>

theorem C8_repeated_id_survives_merge:
  "map msg_id (st_messages
      (syncStateFromStorage (app annSentEarly) incomingAfterJoin
        (syncStateFromStorage (app annSentEarly) incomingAfterJoin (app annSentEarly))))
     = [''sys_init'', ''5000'', ''5000'']
   \<and> \<not> distinct (map msg_id (st_messages
        (syncStateFromStorage (app annSentEarly) incomingAfterJoin
          (syncStateFromStorage (app annSentEarly) incomingAfterJoin (app annSentEarly)))))"
  by (simp add: sync_messages incomingAfterJoin_eval toString_examples)

section \<open>Message ids\<close>

text \<open>
  C9 (the code departs from the claim). The claim: no two messages of a chat log carry the
  same id. An id is the clock reading of the moment the message is made, in decimal. In
  the second run Ann's message and the announcement of Bob's join are made in the same
  millisecond, and the stored chat log holds the id \<^verbatim>\<open>5000\<close> twice.
\<close>

theorem C9_same_millisecond_same_id:
  "map_option (map msg_id) (messages incomingAfterJoin)
     = Some [''sys_init'', ''5000'', ''5000'']
   \<and> \<not> distinct (map msg_id (case messages incomingAfterJoin of None \<Rightarrow> [] | Some ms \<Rightarrow> ms))"
  by (simp add: incomingAfterJoin_eval toString_examples)


section \<open>Changing the video\<close>

lemma updateSyncedState_store:
  "st_partyCode cl = Some pc \<Longrightarrow> pc \<noteq> [] \<Longrightarrow>
   localStorage (updateSyncedState cl new now w)
     = (localStorage w)(storageKey pc \<mapsto> updated_state pc new now w)"
  by (simp add: updateSyncedState_def Let_def)

lemma updateSyncedState_published:
  "st_partyCode cl = Some pc \<Longrightarrow> pc \<noteq> [] \<Longrightarrow>
   published (updateSyncedState cl new now w)
     = published w @ [(storageKey pc, updated_state pc new now w)]"
  by (simp add: updateSyncedState_def Let_def)

lemma map_upd_same_key: "(m(k \<mapsto> x) = m(k \<mapsto> y)) = (x = y)"
  by (auto dest: map_upd_eqD1)


lemma updated_state_videoChange:
  "videoSource (updated_state pc (videoChange cl src txt t_id t_ts) now w) = Some (Some src)"
  "isPlaying (updated_state pc (videoChange cl src txt t_id t_ts) now w) = Some False"
  "currentTime (updated_state pc (videoChange cl src txt t_id t_ts) now w) = Some 0"
  by (simp_all add: updated_state_def videoChange_def spread_def override_def emptyObject_def
      Let_def)

text \<open>
  C4. Each of the three handlers that change the video publishes exactly one state: its
  log of writes grows by a single entry, under the key of the party, and the store then
  holds that entry. The one state published carries the new \<^verbatim>\<open>videoSource\<close> together
  with \<^verbatim>\<open>isPlaying: false\<close> and \<^verbatim>\<open>currentTime: 0\<close>, whatever the store held
  before; there is no second write. (The handlers run in the room, where
  \<^verbatim>\<open>partyCode\<close> is set; a file must have been chosen and the URL field must not be
  empty, otherwise the handler returns before changing anything.)
\<close>

theorem C4_video_change_is_one_write:
  assumes "st_partyCode cl = Some pc" and "pc \<noteq> []"
  shows "(\<exists>state.
            published (handleFileSelect cl (Some (file_name, object_url)) t1 t2 t3 w)
              = published w @ [(storageKey pc, state)]
            \<and> localStorage (handleFileSelect cl (Some (file_name, object_url)) t1 t2 t3 w)
              = (localStorage w)(storageKey pc \<mapsto> state)
            \<and> videoSource state
                = Some (Some \<lparr> vs_type = FILE, url = object_url, vs_name = file_name \<rparr>)
            \<and> isPlaying state = Some False \<and> currentTime state = Some 0)
      \<and> (st_urlInput cl \<noteq> [] \<longrightarrow>
          (\<exists>state.
            published (handleUrlSubmit cl t1 t2 t3 w)
              = published w @ [(storageKey pc, state)]
            \<and> localStorage (handleUrlSubmit cl t1 t2 t3 w)
              = (localStorage w)(storageKey pc \<mapsto> state)
            \<and> videoSource state
                = Some (Some \<lparr> vs_type = (if includes_str (st_urlInput cl) ''youtube.com''
                                               \<or> includes_str (st_urlInput cl) ''youtu.be''
                                            then YOUTUBE else DIRECT_URL),
                                 url = st_urlInput cl, vs_name = ''Streamed Video'' \<rparr>)
            \<and> isPlaying state = Some False \<and> currentTime state = Some 0))
      \<and> (\<exists>state.
            published (joinSample cl sample t1 t2 t3 w)
              = published w @ [(storageKey pc, state)]
            \<and> localStorage (joinSample cl sample t1 t2 t3 w)
              = (localStorage w)(storageKey pc \<mapsto> state)
            \<and> videoSource state = Some (Some sample)
            \<and> isPlaying state = Some False \<and> currentTime state = Some 0)"
proof (intro conjI impI)
  show "\<exists>state.
      published (handleFileSelect cl (Some (file_name, object_url)) t1 t2 t3 w)
        = published w @ [(storageKey pc, state)]
      \<and> localStorage (handleFileSelect cl (Some (file_name, object_url)) t1 t2 t3 w)
        = (localStorage w)(storageKey pc \<mapsto> state)
      \<and> videoSource state
          = Some (Some \<lparr> vs_type = FILE, url = object_url, vs_name = file_name \<rparr>)
      \<and> isPlaying state = Some False \<and> currentTime state = Some 0"
    using assms
    by (simp add: handleFileSelect_def Let_def updateSyncedState_store
        updateSyncedState_published updated_state_videoChange map_upd_same_key)
next
  assume "st_urlInput cl \<noteq> []"
  then show "\<exists>state.
      published (handleUrlSubmit cl t1 t2 t3 w)
        = published w @ [(storageKey pc, state)]
      \<and> localStorage (handleUrlSubmit cl t1 t2 t3 w)
        = (localStorage w)(storageKey pc \<mapsto> state)
      \<and> videoSource state
          = Some (Some \<lparr> vs_type = (if includes_str (st_urlInput cl) ''youtube.com''
                                         \<or> includes_str (st_urlInput cl) ''youtu.be''
                                      then YOUTUBE else DIRECT_URL),
                           url = st_urlInput cl, vs_name = ''Streamed Video'' \<rparr>)
      \<and> isPlaying state = Some False \<and> currentTime state = Some 0"
    using assms
    by (simp add: handleUrlSubmit_def Let_def updateSyncedState_store
        updateSyncedState_published updated_state_videoChange map_upd_same_key)
next
  show "\<exists>state.
      published (joinSample cl sample t1 t2 t3 w)
        = published w @ [(storageKey pc, state)]
      \<and> localStorage (joinSample cl sample t1 t2 t3 w)
        = (localStorage w)(storageKey pc \<mapsto> state)
      \<and> videoSource state = Some (Some sample)
      \<and> isPlaying state = Some False \<and> currentTime state = Some 0"
    using assms
    by (simp add: joinSample_def Let_def updateSyncedState_store
        updateSyncedState_published updated_state_videoChange map_upd_same_key)
qed

text \<open>
  In the third run the store holds Ann's video, playing, at 50 seconds, when Bob submits
  his link: his one write replaces all three.
\<close>

theorem C4_video_change_is_one_write_witness:
  "st_partyCode (app bobTyping) = Some ''ABC123'' \<and> st_urlInput (app bobTyping) \<noteq> []
   \<and> map_option videoSource (localStorage bobTyping (storageKey ''ABC123''))
       = Some (Some (Some bigBuckBunny))
   \<and> map_option isPlaying (localStorage bobTyping (storageKey ''ABC123''))
       = Some (Some True)
   \<and> map_option currentTime (localStorage bobTyping (storageKey ''ABC123''))
       = Some (Some 50)
   \<and> (\<exists>state.
        published (handleUrlSubmit (app bobTyping) 7000 7000 7000 bobTyping)
          = published bobTyping @ [(storageKey ''ABC123'', state)]
        \<and> localStorage (handleUrlSubmit (app bobTyping) 7000 7000 7000 bobTyping)
          = (localStorage bobTyping)(storageKey ''ABC123'' \<mapsto> state)
        \<and> videoSource state
            = Some (Some \<lparr> vs_type = YOUTUBE, url = ''https://youtu.be/jfKfPfyJRdk'',
                             vs_name = ''Streamed Video'' \<rparr>)
        \<and> isPlaying state = Some False \<and> currentTime state = Some 0)"
  using C4_video_change_is_one_write
    [of "app bobTyping" "''ABC123''" "''movie.mp4''" "''blob:1''" 7000 7000 7000
        bobTyping "hd SAMPLE_VIDEOS"]
  by (simp add: bobTyping_eval annSeeking_eval)

text \<open>Outside a party nothing is published: the store is left as it is.\<close>

lemma video_change_without_party:
  assumes "st_partyCode cl = None"
  shows "localStorage (handleFileSelect cl file t1 t2 t3 w) = localStorage w"
    and "localStorage (handleUrlSubmit cl t1 t2 t3 w) = localStorage w"
    and "localStorage (joinSample cl sample t1 t2 t3 w) = localStorage w"
  using assms
  by (simp_all add: handleFileSelect_def handleUrlSubmit_def joinSample_def
      updateSyncedState_def Let_def split: option.splits prod.splits)

section \<open>Joining a party\<close>

text \<open>
  C5. With a user logged in and a code that is not blank, \<^verbatim>\<open>joinParty\<close> normalises the
  code (\<^verbatim>\<open>trim\<close>, \<^verbatim>\<open>toUpperCase\<close>) and reads the store. When the read finds nothing,
  the only effect is the error text \<^verbatim>\<open>Party not found. Check the code.\<close>: the store,
  the roster and the chat log are untouched. When it finds a party state (with its
  \<^verbatim>\<open>users\<close> and \<^verbatim>\<open>messages\<close>, as every state written by this program has), the
  user is appended to the roster, one system message announcing the join is appended to
  the chat log, and the result is written back under the same key.
\<close>

theorem C5_join_unknown_and_known_code:
  assumes "st_currentUser cl = Some u" and "trim (st_joinCodeInput cl) \<noteq> []"
  shows "(localStorage w (storageKey (toUpperCase (trim (st_joinCodeInput cl)))) = None
          \<longrightarrow> joinParty cl t_id t_ts w
              = Inr (w\<lparr>app := (app w)\<lparr>st_joinError := ''Party not found. Check the code.''\<rparr>\<rparr>))
      \<and> (localStorage w (storageKey (toUpperCase (trim (st_joinCodeInput cl)))) = Some state
          \<and> users state = Some us \<and> messages state = Some ms
          \<longrightarrow> joinParty cl t_id t_ts w
              = Inr (w\<lparr>localStorage :=
                         (localStorage w)
                           (storageKey (toUpperCase (trim (st_joinCodeInput cl))) \<mapsto>
                              state\<lparr>users := Some (us @ [u]),
                                     messages := Some (ms @
                                       [\<lparr> msg_id = toString t_id, sender = ''System'',
                                          msg_text = user_name u @ '' joined the party.'',
                                          timestamp = t_ts, isSystem = Some True,
                                          isAi = None \<rparr>])\<rparr>),
                       published :=
                         published w @
                           [(storageKey (toUpperCase (trim (st_joinCodeInput cl))),
                             state\<lparr>users := Some (us @ [u]),
                                    messages := Some (ms @
                                      [\<lparr> msg_id = toString t_id, sender = ''System'',
                                         msg_text = user_name u @ '' joined the party.'',
                                         timestamp = t_ts, isSystem = Some True,
                                         isAi = None \<rparr>])\<rparr>)],
                       app := (app w)\<lparr>st_partyCode :=
                                        Some (toUpperCase (trim (st_joinCodeInput cl))),
                                      st_view := ROOM\<rparr>\<rparr>))"
  using assms by (simp add: joinParty_def systemMessage_def Let_def)

theorem C5_join_unknown_and_known_code_witness:
  "st_currentUser bobLost = Some bob \<and> trim (st_joinCodeInput bobLost) \<noteq> []
   \<and> localStorage (emptyWorld\<lparr>app := bobLost\<rparr>)
        (storageKey (toUpperCase (trim (st_joinCodeInput bobLost)))) = None
   \<and> joinParty bobLost 2000 2000 (emptyWorld\<lparr>app := bobLost\<rparr>)
       = Inr \<lparr> app = bobLost\<lparr>st_joinError := ''Party not found. Check the code.''\<rparr>,
               localStorage = Map.empty, published = [] \<rparr>
   \<and> st_currentUser bobLobby = Some bob \<and> trim (st_joinCodeInput bobLobby) \<noteq> []
   \<and> localStorage (annCreated\<lparr>app := bobLobby\<rparr>)
        (storageKey (toUpperCase (trim (st_joinCodeInput bobLobby)))) = Some created
   \<and> joinParty bobLobby 2000 2000 (annCreated\<lparr>app := bobLobby\<rparr>)
       = Inr (annCreated
               \<lparr>app := bobLobby\<lparr>st_partyCode := Some ''ABC123'', st_view := ROOM\<rparr>,
                localStorage :=
                  [storageKey ''ABC123'' \<mapsto>
                     created\<lparr>users := Some [annHost, bob],
                              messages := Some [sysInit, bobJoinMsg 2000]\<rparr>],
                published :=
                  published annCreated @
                    [(storageKey ''ABC123'',
                      created\<lparr>users := Some [annHost, bob],
                               messages := Some [sysInit, bobJoinMsg 2000]\<rparr>)]\<rparr>)"
  using C5_join_unknown_and_known_code
      [where cl = bobLost and u = bob and w = "emptyWorld\<lparr>app := bobLost\<rparr>"
         and t_id = 2000 and t_ts = 2000]
    C5_join_unknown_and_known_code
      [where cl = bobLobby and u = bob and w = "annCreated\<lparr>app := bobLobby\<rparr>"
         and state = created and us = "[annHost]" and ms = "[sysInit]"
         and t_id = 2000 and t_ts = 2000]
  by (simp add: bobLost_def bobLobby_def lobby_def initialApp_def emptyWorld_def
      annCreated_eval normalized_ABC123 bob_def trim_def toUpperCase_def isWhiteSpace_def
      upperChar_def)

text \<open>A blank code, or no user, makes \<^verbatim>\<open>joinParty\<close> return at once, without any error.\<close>

lemma joinParty_blank:
  "st_currentUser cl = None \<or> trim (st_joinCodeInput cl) = [] \<Longrightarrow>
   joinParty cl t_id t_ts w = Inr w"
  by (auto simp add: joinParty_def split: option.splits)

section \<open>The reply of the responder\<close>










section \<open>The history passed to the responder\<close>

lemma slice_last_six: "slice (- 6) xs = mostRecent 6 xs"
proof -
  have "nat (max (int (length xs) + - 6) 0) = length xs - 6"
    by linarith
  then have "slice (- 6) xs = drop (length xs - 6) xs"
    by (simp add: slice_def)
  also have "\<dots> = rev (take 6 (rev xs))"
    by (simp add: take_rev)
  finally show ?thesis
    by (simp add: mostRecent_def)
qed

lemma truthy_isAi: "truthy (isAi m) = (isAi m = Some True)"
  by (simp add: truthy_def split: option.splits)

text \<open>
  C7 (corrected). The claim: the history holds the latest six messages written by the local
  user or by the responder, and messages of other users and system messages are left out.
  The filter compares the sender's name with the local user's display name. For a user who
  logged in as \<^verbatim>\<open>System\<close>, the system message of \<^verbatim>\<open>createParty\<close> is part of the
  history, tagged \<^verbatim>\<open>user\<close>.
\<close>

theorem C7_counterexample:
  "map isSystem (st_messages (app samCreated)) = [Some True]
   \<and> history (st_messages (app samCreated)) sam
       = [\<lparr> role = ''user'', content = ''Party created! Code: ABC123'' \<rparr>]"
  by (simp add: samCreated_def createParty_def lobby_def initialApp_def emptyWorld_def sam_def
      Let_def history_def slice_def truthy_def)

text \<open>
  C7 as amended. The history consists of exactly the most recent at most six messages among
  those that are AI messages or whose sender name equals the local user's display name,
  in their original order, each tagged \<^verbatim>\<open>model\<close> if it is an AI message and
  \<^verbatim>\<open>user\<close> otherwise.
\<close>

theorem C7_history_is_recent_six_by_name:
  "history msgs currentUser
     = map roleTagged
         (mostRecent 6
           (filter (\<lambda>m. isAi m = Some True \<or> sender m = user_name currentUser) msgs))
   \<and> length (history msgs currentUser) \<le> 6"
proof -
  have eq: "history msgs currentUser
     = map roleTagged
         (mostRecent 6
           (filter (\<lambda>m. isAi m = Some True \<or> sender m = user_name currentUser) msgs))"
    by (simp add: history_def roleTagged_def truthy_isAi slice_last_six)
  then show ?thesis by (simp add: mostRecent_def)
qed


end
